theory Spec2Isabelle
  imports Main
begin

section \<open>Errors\<close>

text \<open>
  The only error of the parser context is \<open>CommonError.InvariantError(message, details)\<close>.
  The model keeps the message.  A \<open>throw\<close> leaves every mutation made before it in place,
  so each operation returns the heap and the state it reached together with either the
  error or the returned value.
\<close>

datatype error = InvariantError string

section \<open>Data model (src/parser/context.ts, lines 29-51)\<close>

text \<open>
  \<open>Node\<close> and \<open>Ast.TNode\<close> values are JavaScript objects: they are passed and stored by
  reference and some of their fields are assigned in place.  The model therefore keeps
  the objects in a store and lets the maps, the root handle and the arguments of the
  operations hold references.  Ids, counters and indices are JavaScript numbers that only
  ever hold naturals here; they are modelled as \<open>nat\<close> (the loss of precision of
  \<open>idCounter + 1\<close> above \<open>2^53\<close> is not modelled).
\<close>

type_synonym ref = nat

text \<open>\<open>Ast.NodeKind\<close> is a string enumeration whose declaration is not part of the sources.\<close>

type_synonym NodeKind = string

text \<open>
  The fields of \<open>Ast.TNode\<close> that context.ts reads or assigns: \<open>id\<close>, \<open>isLeaf\<close> and
  \<open>maybeAttributeIndex\<close>, with the node kind.
\<close>

record TNode =
  id_ast :: nat
  kind_ast :: NodeKind
  isLeaf :: bool
  maybeAttributeIndex_ast :: "nat option"

text \<open>\<open>interface Node\<close>; the token type \<open>'tok\<close> is a parameter.\<close>

record 'tok Node =
  id_ctx :: nat
  kind_ctx :: NodeKind
  tokenIndexStart :: nat
  maybeTokenStart :: "'tok option"
  attributeCounter :: nat
  maybeAstNode :: "ref option"
  maybeAttributeIndex_ctx :: "nat option"

text \<open>\<open>NodeIdMap.Collection\<close>: the two maps from ids to objects and the two id relations.\<close>

record Collection =
  astNodeById :: "nat \<rightharpoonup> ref"
  contextNodeById :: "nat \<rightharpoonup> ref"
  parentIdById :: "nat \<rightharpoonup> nat"
  childIdsById :: "nat \<rightharpoonup> nat list"

record Root =
  maybeNode :: "ref option"

record State =
  root :: Root
  nodeIdMapCollection :: Collection
  idCounter :: nat
  leafNodeIds :: "nat list"

text \<open>
  The object store.  Every reference denotes an object; \<open>contextObjectCount\<close> and
  \<open>astObjectCount\<close> are the next unused references, so an object literal evaluated by the
  program is stored at the count, which then grows by one.
\<close>

record 'tok Heap =
  contextObjects :: "ref \<Rightarrow> 'tok Node"
  contextObjectCount :: nat
  astObjects :: "ref \<Rightarrow> TNode"
  astObjectCount :: nat

datatype XorNode = AstXor ref | ContextXor ref

section \<open>JavaScript helpers\<close>

text \<open>\<open>if (x)\<close> on an \<open>Option<number>\<close>: \<open>undefined\<close> and \<open>0\<close> are falsy.\<close>

fun truthy :: "nat option \<Rightarrow> bool" where
  "truthy None = False"
| "truthy (Some n) = (n \<noteq> 0)"

text \<open>\<open>Array.prototype.indexOf\<close>: the first index of the element; \<open>None\<close> stands for \<open>-1\<close>.\<close>

fun indexOf :: "nat list \<Rightarrow> nat \<Rightarrow> nat option" where
  "indexOf [] x = None"
| "indexOf (y # ys) x = (if y = x then Some 0 else map_option Suc (indexOf ys x))"

section \<open>NodeIdMap lookups\<close>

text \<open>
  Modelled from the spec: \<open>NodeIdMap.expectChildIds\<close>, whose source file is not part of the
  sources.  Section 4.2 of the specification: a lookup either returns the requested
  entity or fails with an \<open>InvariantError\<close> naming the missing id.  The message is not
  given there.
\<close>

definition expectChildIds :: "(nat \<rightharpoonup> nat list) \<Rightarrow> nat \<Rightarrow> error + nat list" where
  "expectChildIds childIdsById' nodeId =
     (case childIdsById' nodeId of
        None \<Rightarrow> Inl (InvariantError ''nodeId not in childIdsById'')
      | Some childIds \<Rightarrow> Inr childIds)"

text \<open>
  Modelled from the spec: \<open>NodeIdMap.expectContextNode\<close>, whose source file is not part of
  the sources (same contract as above).
\<close>

definition expectContextNode :: "(nat \<rightharpoonup> ref) \<Rightarrow> nat \<Rightarrow> error + ref" where
  "expectContextNode contextNodeById' nodeId =
     (case contextNodeById' nodeId of
        None \<Rightarrow> Inl (InvariantError ''nodeId not in contextNodeById'')
      | Some node \<Rightarrow> Inr node)"

text \<open>
  Modelled from the spec: \<open>NodeIdMap.expectXorNode\<close>, whose source file is not part of the
  sources.  It resolves an id to the closed ast node or to the open context registered
  under it and fails with an \<open>InvariantError\<close> when the id is in neither map.  The
  specification does not say which map is asked first; the model asks \<open>astNodeById\<close>
  first, and the theorems below that depend on the answer assume an id registered in one
  map only.
\<close>

definition expectXorNode :: "Collection \<Rightarrow> nat \<Rightarrow> error + XorNode" where
  "expectXorNode c nodeId =
     (case astNodeById c nodeId of
        Some astNode \<Rightarrow> Inr (AstXor astNode)
      | None \<Rightarrow>
          (case contextNodeById c nodeId of
             Some contextNode \<Rightarrow> Inr (ContextXor contextNode)
           | None \<Rightarrow> Inl (InvariantError ''nodeId not in astNodeById nor contextNodeById'')))"

text \<open>
  The attribute index of the node an id resolves to, read from the object that
  \<open>expectXorNode\<close> returns; \<open>None\<close> when the id is not registered or the index is
  \<open>undefined\<close>.
\<close>

definition attributeIndexOf :: "'tok Heap \<Rightarrow> Collection \<Rightarrow> nat \<Rightarrow> nat option" where
  "attributeIndexOf h c nodeId =
     (case expectXorNode c nodeId of
        Inl e \<Rightarrow> None
      | Inr (AstXor astNode) \<Rightarrow> maybeAttributeIndex_ast (astObjects h astNode)
      | Inr (ContextXor contextNode) \<Rightarrow> maybeAttributeIndex_ctx (contextObjects h contextNode))"

section \<open>Context lifecycle (src/parser/context.ts)\<close>

text \<open>\<open>empty()\<close>, lines 53-67.\<close>

definition empty :: State where
  "empty =
     \<lparr> root = \<lparr> maybeNode = None \<rparr>,
       nodeIdMapCollection =
         \<lparr> astNodeById = Map.empty, contextNodeById = Map.empty,
           parentIdById = Map.empty, childIdsById = Map.empty \<rparr>,
       idCounter = 0,
       leafNodeIds = [] \<rparr>"

text \<open>
  \<open>startContext\<close>, lines 69-113.  The parent is a \<open>Node\<close> object; its counter is assigned in
  place whether or not the object is registered in \<open>contextNodeById\<close>.  The function has no
  \<open>throw\<close>.
\<close>

definition startContext ::
  "'tok Heap \<Rightarrow> State \<Rightarrow> NodeKind \<Rightarrow> nat \<Rightarrow> 'tok option \<Rightarrow> ref option
     \<Rightarrow> ('tok Heap \<times> State) \<times> (error + ref)" where
  "startContext h s nodeKind tokenIndexStart' maybeTokenStart' maybeParentNode =
     (let nodeId = idCounter s + 1;
          s1 = s\<lparr>idCounter := idCounter s + 1\<rparr>;
          (h2, s2, maybeAttributeIndex) =
            (case maybeParentNode of
               None \<Rightarrow> (h, s1, None)
             | Some parentNode \<Rightarrow>
                 (let parentId = id_ctx (contextObjects h parentNode);
                      attributeIndex = attributeCounter (contextObjects h parentNode);
                      h1 = h\<lparr>contextObjects := (contextObjects h)
                             (parentNode := (contextObjects h parentNode)
                                \<lparr>attributeCounter := attributeIndex + 1\<rparr>)\<rparr>;
                      c = nodeIdMapCollection s1;
                      c1 = c\<lparr>parentIdById := (parentIdById c)(nodeId \<mapsto> parentId)\<rparr>;
                      c2 = (case childIdsById c1 parentId of
                              Some existingChildren \<Rightarrow>
                                c1\<lparr>childIdsById :=
                                     (childIdsById c1)(parentId \<mapsto> existingChildren @ [nodeId])\<rparr>
                            | None \<Rightarrow>
                                c1\<lparr>childIdsById := (childIdsById c1)(parentId \<mapsto> [nodeId])\<rparr>)
                  in (h1, s1\<lparr>nodeIdMapCollection := c2\<rparr>, Some attributeIndex)));
          node = \<lparr> id_ctx = nodeId, kind_ctx = nodeKind, tokenIndexStart = tokenIndexStart',
                   maybeTokenStart = maybeTokenStart', attributeCounter = 0,
                   maybeAstNode = None, maybeAttributeIndex_ctx = maybeAttributeIndex \<rparr>;
          nodeRef = contextObjectCount h2;
          h3 = h2\<lparr>contextObjects := (contextObjects h2)(nodeRef := node),
                  contextObjectCount := nodeRef + 1\<rparr>;
          c3 = nodeIdMapCollection s2;
          s3 = s2\<lparr>nodeIdMapCollection :=
                    c3\<lparr>contextNodeById := (contextNodeById c3)(nodeId \<mapsto> nodeRef)\<rparr>\<rparr>
      in ((h3, s3), Inr nodeRef))"

text \<open>
  \<open>endContext\<close>, lines 117-149.  The two guards throw before anything is assigned.  The
  third \<open>throw\<close> (line 144) comes after \<open>leafNodeIds.push\<close> and the assignment of
  \<open>maybeAstNode\<close>, and before \<open>astNodeById.set\<close>.  \<open>Map.delete\<close> returns false when the key is
  absent.
\<close>

definition endContext ::
  "'tok Heap \<Rightarrow> State \<Rightarrow> ref \<Rightarrow> ref \<Rightarrow> ('tok Heap \<times> State) \<times> (error + ref option)" where
  "endContext h s contextNode astNode =
     (if maybeAstNode (contextObjects h contextNode) \<noteq> None
      then ((h, s), Inl (InvariantError ''context was already ended''))
      else if id_ctx (contextObjects h contextNode) \<noteq> id_ast (astObjects h astNode)
      then ((h, s), Inl (InvariantError ''contextNode and astNode have different nodeIds''))
      else
        (let c = nodeIdMapCollection s;
             contextId = id_ctx (contextObjects h contextNode);
             s1 = (if isLeaf (astObjects h astNode)
                   then s\<lparr>leafNodeIds := leafNodeIds s @ [contextId]\<rparr> else s);
             maybeParentId = parentIdById c contextId;
             maybeParentNode =
               (case maybeParentId of
                  Some parentId \<Rightarrow> contextNodeById c parentId
                | None \<Rightarrow> None);
             h1 = h\<lparr>contextObjects := (contextObjects h)
                    (contextNode := (contextObjects h contextNode)\<lparr>maybeAstNode := Some astNode\<rparr>)\<rparr>
         in if contextNodeById c contextId = None
            then ((h1, s1),
                  Inl (InvariantError ''can't end a context that doesn't belong to state''))
            else
              (let c1 = c\<lparr>contextNodeById := (contextNodeById c)(contextId := None)\<rparr>;
                   c2 = c1\<lparr>astNodeById :=
                            (astNodeById c1)(id_ast (astObjects h astNode) \<mapsto> astNode)\<rparr>
               in ((h1, s1\<lparr>nodeIdMapCollection := c2\<rparr>), Inr maybeParentNode))))"

text \<open>
  \<open>removeOrReplaceChildId\<close>, lines 243-269.  Both errors are raised before the collection
  is assigned.  \<open>if (maybeReplacementId)\<close> is a truthiness test on a number.
\<close>

definition removeOrReplaceChildId ::
  "Collection \<Rightarrow> nat \<Rightarrow> nat \<Rightarrow> nat option \<Rightarrow> error + Collection" where
  "removeOrReplaceChildId c parentId childId maybeReplacementId =
     (case expectChildIds (childIdsById c) parentId of
        Inl e \<Rightarrow> Inl e
      | Inr childIds \<Rightarrow>
          (case indexOf childIds childId of
             None \<Rightarrow>
               Inl (InvariantError ''childId isn't a child of parentId'')
           | Some replacementIndex \<Rightarrow>
               (let beforeChildId = take replacementIndex childIds;
                    afterChildId = drop (replacementIndex + 1) childIds
                in if truthy maybeReplacementId
                   then
                     (let replacementId = the maybeReplacementId;
                          c1 = c\<lparr>childIdsById := (childIdsById c)
                                 (parentId \<mapsto> beforeChildId @ [replacementId] @ afterChildId)\<rparr>
                      in Inr (c1\<lparr>parentIdById :=
                                   (parentIdById c1)(replacementId \<mapsto> parentId)\<rparr>))
                   else
                     Inr (c\<lparr>childIdsById := (childIdsById c)
                            (parentId \<mapsto> beforeChildId @ afterChildId)\<rparr>))))"

text \<open>
  The branch of \<open>deleteContext\<close> for a node with an entry in \<open>childIdsById\<close>, lines 176-207.
  \<open>node\<close> is the object registered under \<open>nodeId\<close>.
\<close>

definition deleteContext_notLeaf ::
  "'tok Heap \<Rightarrow> State \<Rightarrow> ref \<Rightarrow> nat \<Rightarrow> nat option \<Rightarrow> nat list
     \<Rightarrow> ('tok Heap \<times> State) \<times> (error + unit)" where
  "deleteContext_notLeaf h s node nodeId maybeParentId childIds =
     (if length childIds \<noteq> 1
      then ((h, s), Inl (InvariantError ''childIds.length !== 0''))
      else
        (let childId = childIds ! 0;
             relinked =
               (case maybeParentId of
                  None \<Rightarrow>
                    (case contextNodeById (nodeIdMapCollection s) childId of
                       Some childContext \<Rightarrow>
                         Inr (s\<lparr>root := (root s)\<lparr>maybeNode := Some childContext\<rparr>\<rparr>)
                     | None \<Rightarrow> Inr s)
                | Some parentId \<Rightarrow>
                    (case removeOrReplaceChildId (nodeIdMapCollection s) parentId nodeId
                            (Some childId) of
                       Inl e \<Rightarrow> Inl e
                     | Inr c \<Rightarrow> Inr (s\<lparr>nodeIdMapCollection := c\<rparr>)))
         in case relinked of
              Inl e \<Rightarrow> ((h, s), Inl e)
            | Inr s1 \<Rightarrow>
                (case expectXorNode (nodeIdMapCollection s1) childId of
                   Inl e \<Rightarrow> ((h, s1), Inl e)
                 | Inr (ContextXor child) \<Rightarrow>
                     ((h\<lparr>contextObjects := (contextObjects h)
                          (child := (contextObjects h child)
                             \<lparr>maybeAttributeIndex_ctx :=
                                maybeAttributeIndex_ctx (contextObjects h node)\<rparr>)\<rparr>, s1),
                      Inr ())
                 | Inr (AstXor child) \<Rightarrow>
                     ((h\<lparr>astObjects := (astObjects h)
                          (child := (astObjects h child)
                             \<lparr>maybeAttributeIndex_ast :=
                                maybeAttributeIndex_ctx (contextObjects h node)\<rparr>)\<rparr>, s1),
                      Inr ()))))"

text \<open>
  \<open>deleteContext\<close>, lines 151-224.  \<open>else if (maybeParentId)\<close> on line 210 is a truthiness
  test on a number, \<open>maybeParentId === undefined\<close> on line 189 and
  \<open>maybeParentId !== undefined\<close> on line 223 are not.
\<close>

definition deleteContext ::
  "'tok Heap \<Rightarrow> State \<Rightarrow> nat \<Rightarrow> ('tok Heap \<times> State) \<times> (error + ref option)" where
  "deleteContext h s nodeId =
     (case contextNodeById (nodeIdMapCollection s) nodeId of
        None \<Rightarrow> ((h, s), Inl (InvariantError ''nodeId not in state.''))
      | Some node \<Rightarrow>
          (let s1 = (case indexOf (leafNodeIds s) nodeId of
                       None \<Rightarrow> s
                     | Some leafIndex \<Rightarrow>
                         s\<lparr>leafNodeIds := take leafIndex (leafNodeIds s)
                                            @ drop (leafIndex + 1) (leafNodeIds s)\<rparr>);
               maybeParentId = parentIdById (nodeIdMapCollection s1) nodeId;
               maybeChildIds = childIdsById (nodeIdMapCollection s1) nodeId;
               relinked =
                 (case maybeChildIds of
                    Some childIds \<Rightarrow>
                      deleteContext_notLeaf h s1 node nodeId maybeParentId childIds
                  | None \<Rightarrow>
                      (if truthy maybeParentId
                       then (case removeOrReplaceChildId (nodeIdMapCollection s1)
                                    (the maybeParentId) nodeId None of
                               Inl e \<Rightarrow> ((h, s1), Inl e)
                             | Inr c \<Rightarrow> ((h, s1\<lparr>nodeIdMapCollection := c\<rparr>), Inr ()))
                       else ((h, s1), Inr ())))
           in case relinked of
                (w, Inl e) \<Rightarrow> (w, Inl e)
              | ((h2, s2), Inr u) \<Rightarrow>
                  (let c = nodeIdMapCollection s2;
                       c1 = c\<lparr>contextNodeById := (contextNodeById c)(nodeId := None)\<rparr>;
                       c2 = c1\<lparr>childIdsById := (childIdsById c1)(nodeId := None)\<rparr>;
                       c3 = c2\<lparr>parentIdById := (parentIdById c2)(nodeId := None)\<rparr>;
                       s3 = s2\<lparr>nodeIdMapCollection := c3\<rparr>
                   in case maybeParentId of
                        None \<Rightarrow> ((h2, s3), Inr None)
                      | Some parentId \<Rightarrow>
                          (case expectContextNode (contextNodeById c3) parentId of
                             Inl e \<Rightarrow> ((h2, s3), Inl e)
                           | Inr parentNode \<Rightarrow> ((h2, s3), Inr (Some parentNode))))))"

text \<open>
  Modelled from the spec: \<open>NodeIdMap.deepCopyCollection\<close>, whose source file is not part of
  the sources.  Sections 4.2, 4.4 and 5 of the specification: the copy is an independent
  collection that duplicates the four mappings and shares only the immutable ast-node
  records.  The context nodes are mutable, so every one of them gets a duplicate: the
  duplicate of the object at reference \<open>r\<close> is stored at \<open>contextObjectCount h + r\<close>, which
  is unused, and the copied \<open>contextNodeById\<close> refers to the duplicates.  This definition
  gives the nodes and the contents of the four copied maps; \<open>deepCopyCollectionIn\<close> below
  puts them into new map objects.
\<close>

definition deepCopyCollection :: "'tok Heap \<Rightarrow> Collection \<Rightarrow> 'tok Heap \<times> Collection" where
  "deepCopyCollection h c =
     (let n = contextObjectCount h
      in (h\<lparr>contextObjects :=
              (\<lambda>r. if n \<le> r \<and> r < 2 * n then contextObjects h (r - n) else contextObjects h r),
            contextObjectCount := 2 * n\<rparr>,
          c\<lparr>contextNodeById := (\<lambda>nodeId. map_option (\<lambda>r. r + n) (contextNodeById c nodeId))\<rparr>))"

section \<open>Sequences of lifecycle operations\<close>

text \<open>
  A call of one of the three operations with its arguments.  A driver may go on after an
  \<open>InvariantError\<close>; the state it goes on with is the one the failed call left.
\<close>

datatype 'tok Op =
    StartContext NodeKind nat "'tok option" "ref option"
  | EndContext ref ref
  | DeleteContext nat

fun step :: "'tok Heap \<times> State \<Rightarrow> 'tok Op \<Rightarrow> 'tok Heap \<times> State" where
  "step (h, s) (StartContext nodeKind tokenIndexStart' maybeTokenStart' maybeParentNode) =
     fst (startContext h s nodeKind tokenIndexStart' maybeTokenStart' maybeParentNode)"
| "step (h, s) (EndContext contextNode astNode) = fst (endContext h s contextNode astNode)"
| "step (h, s) (DeleteContext nodeId) = fst (deleteContext h s nodeId)"

fun run :: "'tok Heap \<times> State \<Rightarrow> 'tok Op list \<Rightarrow> 'tok Heap \<times> State" where
  "run w [] = w"
| "run w (op # ops) = run (step w op) ops"

text \<open>The call opens a child context with the object \<open>r\<close> as its parent.\<close>

fun startsUnder :: "ref \<Rightarrow> 'tok Op \<Rightarrow> bool" where
  "startsUnder r (StartContext nodeKind tokenIndexStart' maybeTokenStart' maybeParentNode) =
     (maybeParentNode = Some r)"
| "startsUnder r (EndContext contextNode astNode) = False"
| "startsUnder r (DeleteContext nodeId) = False"


section \<open>The parser driver in the scenarios\<close>

text \<open>A store with no object allocated yet.\<close>

definition emptyHeap :: "'tok Heap" where
  "emptyHeap =
     \<lparr> contextObjects =
         (\<lambda>r. \<lparr> id_ctx = 0, kind_ctx = [], tokenIndexStart = 0, maybeTokenStart = None,
                 attributeCounter = 0, maybeAstNode = None, maybeAttributeIndex_ctx = None \<rparr>),
       contextObjectCount = 0,
       astObjects =
         (\<lambda>r. \<lparr> id_ast = 0, kind_ast = [], isLeaf = False, maybeAttributeIndex_ast = None \<rparr>),
       astObjectCount = 0 \<rparr>"

text \<open>The driver evaluates an object literal for an ast node.\<close>

definition newAstNode :: "'tok Heap \<Rightarrow> TNode \<Rightarrow> 'tok Heap \<times> ref" where
  "newAstNode h astNode =
     (h\<lparr>astObjects := (astObjects h)(astObjectCount h := astNode),
        astObjectCount := astObjectCount h + 1\<rparr>,
      astObjectCount h)"

text \<open>
  The driver closes a context: it builds the ast node with the id, the kind and the
  attribute index of the context and hands it to \<open>endContext\<close>.
\<close>

definition closeContext ::
  "'tok Heap \<Rightarrow> State \<Rightarrow> ref \<Rightarrow> bool \<Rightarrow> ('tok Heap \<times> State) \<times> (error + ref option)" where
  "closeContext h s contextNode leaf =
     (let (h1, astNode) =
            newAstNode h
              \<lparr> id_ast = id_ctx (contextObjects h contextNode),
                kind_ast = kind_ctx (contextObjects h contextNode),
                isLeaf = leaf,
                maybeAttributeIndex_ast = maybeAttributeIndex_ctx (contextObjects h contextNode) \<rparr>
      in endContext h1 s contextNode astNode)"

text \<open>The driver installs a context as \<open>root.maybeNode\<close>.\<close>

fun installRoot :: "'tok Heap \<times> State \<Rightarrow> ref \<Rightarrow> 'tok Heap \<times> State" where
  "installRoot (h, s) node = (h, s\<lparr>root := (root s)\<lparr>maybeNode := Some node\<rparr>\<rparr>)"

text \<open>
  Scenario S2, the list with a trailing comma \<open>{1,\<close>.  Every call gets the node objects
  that the earlier calls returned; the scenario is \<open>None\<close> if a call fails.
\<close>

definition scenarioS2 :: "(unit Heap \<times> State) option" where
  "scenarioS2 =
     (case startContext emptyHeap empty ''ListExpression'' 0 None None of
        (_, Inl e) \<Rightarrow> None
      | ((h1, s1), Inr n1) \<Rightarrow>
     (case startContext h1 (s1\<lparr>root := (root s1)\<lparr>maybeNode := Some n1\<rparr>\<rparr>)
             ''Constant'' 0 None (Some n1) of
        (_, Inl e) \<Rightarrow> None
      | ((h2, s2), Inr n2) \<Rightarrow>
     (case closeContext h2 s2 n2 True of
        (_, Inl e) \<Rightarrow> None
      | ((h3, s3), Inr p3) \<Rightarrow>
     (case startContext h3 s3 ''Csv'' 1 None (Some n1) of
        (_, Inl e) \<Rightarrow> None
      | ((h4, s4), Inr n3) \<Rightarrow>
     (case startContext h4 s4 ''LiteralExpression'' 1 None (Some n3) of
        (_, Inl e) \<Rightarrow> None
      | ((h5, s5), Inr n4) \<Rightarrow>
     (case closeContext h5 s5 n4 True of
        (_, Inl e) \<Rightarrow> None
      | ((h6, s6), Inr p6) \<Rightarrow>
     (case startContext h6 s6 ''Constant'' 2 None (Some n3) of
        (_, Inl e) \<Rightarrow> None
      | ((h7, s7), Inr n5) \<Rightarrow>
     (case closeContext h7 s7 n5 True of
        (_, Inl e) \<Rightarrow> None
      | ((h8, s8), Inr p8) \<Rightarrow>
     (case closeContext h8 s8 n3 False of
        (_, Inl e) \<Rightarrow> None
      | ((h9, s9), Inr p9) \<Rightarrow>
     (case startContext h9 s9 ''Csv'' 3 None (Some n1) of
        (_, Inl e) \<Rightarrow> None
      | ((h10, s10), Inr n6) \<Rightarrow> Some (h10, s10)))))))))))"

text \<open>A store holding the given ast nodes at the references 0, 1, ... and no context.\<close>

fun storeAstNodes :: "'tok Heap \<Rightarrow> TNode list \<Rightarrow> 'tok Heap" where
  "storeAstNodes h [] = h"
| "storeAstNodes h (astNode # astNodes) = storeAstNodes (fst (newAstNode h astNode)) astNodes"

definition heapWith :: "TNode list \<Rightarrow> unit Heap" where
  "heapWith astNodes = storeAstNodes emptyHeap astNodes"

text \<open>
  The concrete sessions of the examples below.  Each starts from \<open>empty()\<close>; the first
  context that is opened is stored at reference 0, the second at reference 1, and so on,
  so the context with id \<open>k\<close> is the object at reference \<open>k - 1\<close>.
\<close>

text \<open>A root (id 1) with one open child (id 2).\<close>

definition parentWithChild :: "unit Heap \<times> State" where
  "parentWithChild =
     run (emptyHeap, empty)
       [StartContext ''ListExpression'' 0 None None,
        StartContext ''Csv'' 1 None (Some 0)]"

text \<open>The same session after the child is deleted.\<close>

definition emptiedParent :: "unit Heap \<times> State" where
  "emptiedParent = run parentWithChild [DeleteContext 2]"

text \<open>
  An installed root (id 1) with one open child (id 2).  The store also holds the leaf ast
  node (ast reference 0) that the driver has built for the child, with the attribute
  index 0 of the child.
\<close>

definition rootWithOpenChild :: "unit Heap \<times> State" where
  "rootWithOpenChild =
     run (installRoot
            (run (heapWith [\<lparr> id_ast = 2, kind_ast = ''Constant'', isLeaf = True,
                              maybeAttributeIndex_ast = Some 0 \<rparr>], empty)
               [StartContext ''ListExpression'' 0 None None]) 0)
       [StartContext ''Constant'' 0 None (Some 0)]"

text \<open>The same session after the child is closed with that ast node.\<close>

definition rootWithClosedChild :: "unit Heap \<times> State" where
  "rootWithClosedChild = run rootWithOpenChild [EndContext 1 0]"

text \<open>
  A root (id 1) with two children (ids 2 and 3); the second child has one child (id 4),
  closed as the leaf ast node at ast reference 0 with attribute index 0.
\<close>

definition closedGrandchild :: "unit Heap \<times> State" where
  "closedGrandchild =
     run (heapWith [\<lparr> id_ast = 4, kind_ast = ''Constant'', isLeaf = True,
                       maybeAttributeIndex_ast = Some 0 \<rparr>], empty)
       [StartContext ''ListExpression'' 0 None None,
        StartContext ''Constant'' 0 None (Some 0),
        StartContext ''Csv'' 1 None (Some 0),
        StartContext ''Constant'' 1 None (Some 2),
        EndContext 3 0]"

text \<open>
  A root (id 1) with three children (ids 2, 3 and 4); the child with id 3 has one open
  child (id 5).
\<close>

definition threeGenerations :: "unit Heap \<times> State" where
  "threeGenerations =
     run (emptyHeap, empty)
       [StartContext ''ListExpression'' 0 None None,
        StartContext ''Constant'' 0 None (Some 0),
        StartContext ''Csv'' 1 None (Some 0),
        StartContext ''Csv'' 3 None (Some 0),
        StartContext ''LiteralExpression'' 1 None (Some 2)]"

text \<open>A root (id 1) that was opened and closed as the ast node at ast reference 0.\<close>

definition closedRoot :: "unit Heap \<times> State" where
  "closedRoot =
     run (heapWith [\<lparr> id_ast = 1, kind_ast = ''ListExpression'', isLeaf = False,
                       maybeAttributeIndex_ast = None \<rparr>], empty)
       [StartContext ''ListExpression'' 0 None None,
        EndContext 0 0]"

text \<open>
  A root (id 1) that was opened and deleted; the driver still holds its \<open>Node\<close> object
  (reference 0) and an ast node with id 1 (ast reference 0).
\<close>

definition deletedRoot :: "unit Heap \<times> State" where
  "deletedRoot =
     run (heapWith [\<lparr> id_ast = 1, kind_ast = ''Constant'', isLeaf = True,
                       maybeAttributeIndex_ast = None \<rparr>], empty)
       [StartContext ''Constant'' 0 None None,
        DeleteContext 1]"

section \<open>Sessions as objects\<close>

text \<open>
  A \<open>State\<close>, its \<open>Root\<close>, its four \<open>Map\<close>s and its \<open>leafNodeIds\<close> array are JavaScript
  objects too, and context.ts assigns them in place: \<open>state.idCounter += 1\<close>,
  \<open>map.set\<close> and \<open>map.delete\<close>, \<open>state.leafNodeIds.push\<close>, \<open>state.root.maybeNode = ...\<close>.
  Two sessions that share one of these objects see each other's assignments.  The
  records below give every such object a reference of its own, so that sharing and
  copying differ.  The arrays of child ids are \<open>ReadonlyArray\<close>s that are only ever
  replaced by new arrays; they stay values.

  A \<open>State\<close> record as above is the content of a session at one moment (\<open>stateOf\<close>).  An
  operation on a session computes what the operation on that content computes and
  assigns the results to the objects the source assigns them to.
\<close>

text \<open>The four readonly fields of a \<open>NodeIdMap.Collection\<close>: the map objects.\<close>

record CollectionObject =
  astNodeByIdMap :: ref
  contextNodeByIdMap :: ref
  parentIdByIdMap :: ref
  childIdsByIdMap :: ref

text \<open>
  A \<open>State\<close> object: the readonly fields \<open>root\<close> and \<open>nodeIdMapCollection\<close>, the number
  \<open>idCounter\<close> and the field \<open>leafNodeIds\<close>, which holds an array object.
\<close>

record StateObject =
  rootObject :: ref
  collectionObject :: CollectionObject
  idCounterField :: nat
  leafNodeIdsArray :: ref

text \<open>
  The store of all objects: the nodes (\<open>nodeHeap\<close>) and, for each kind of container, the
  objects and the next unused reference.
\<close>

record 'tok Store =
  nodeHeap :: "'tok Heap"
  stateObjects :: "ref \<Rightarrow> StateObject"
  stateObjectCount :: nat
  rootObjects :: "ref \<Rightarrow> Root"
  rootObjectCount :: nat
  leafArrays :: "ref \<Rightarrow> nat list"
  leafArrayCount :: nat
  astMaps :: "ref \<Rightarrow> (nat \<rightharpoonup> ref)"
  astMapCount :: nat
  contextMaps :: "ref \<Rightarrow> (nat \<rightharpoonup> ref)"
  contextMapCount :: nat
  parentMaps :: "ref \<Rightarrow> (nat \<rightharpoonup> nat)"
  parentMapCount :: nat
  childMaps :: "ref \<Rightarrow> (nat \<rightharpoonup> nat list)"
  childMapCount :: nat

text \<open>What a collection and a session hold at the moment: the contents of their objects.\<close>

definition collectionOf :: "'tok Store \<Rightarrow> CollectionObject \<Rightarrow> Collection" where
  "collectionOf st c =
     \<lparr> astNodeById = astMaps st (astNodeByIdMap c),
       contextNodeById = contextMaps st (contextNodeByIdMap c),
       parentIdById = parentMaps st (parentIdByIdMap c),
       childIdsById = childMaps st (childIdsByIdMap c) \<rparr>"

definition stateOf :: "'tok Store \<Rightarrow> ref \<Rightarrow> State" where
  "stateOf st state =
     \<lparr> root = rootObjects st (rootObject (stateObjects st state)),
       nodeIdMapCollection = collectionOf st (collectionObject (stateObjects st state)),
       idCounter = idCounterField (stateObjects st state),
       leafNodeIds = leafArrays st (leafNodeIdsArray (stateObjects st state)) \<rparr>"

text \<open>
  \<open>empty()\<close>, lines 53-67, as an allocation: the object literal creates a root object, four
  \<open>new Map()\<close>, an empty array and the state object that holds them.
\<close>

definition emptyIn :: "'tok Store \<Rightarrow> 'tok Store \<times> ref" where
  "emptyIn st =
     (st\<lparr>rootObjects := (rootObjects st)(rootObjectCount st := \<lparr> maybeNode = None \<rparr>),
         rootObjectCount := rootObjectCount st + 1,
         astMaps := (astMaps st)(astMapCount st := Map.empty),
         astMapCount := astMapCount st + 1,
         contextMaps := (contextMaps st)(contextMapCount st := Map.empty),
         contextMapCount := contextMapCount st + 1,
         parentMaps := (parentMaps st)(parentMapCount st := Map.empty),
         parentMapCount := parentMapCount st + 1,
         childMaps := (childMaps st)(childMapCount st := Map.empty),
         childMapCount := childMapCount st + 1,
         leafArrays := (leafArrays st)(leafArrayCount st := []),
         leafArrayCount := leafArrayCount st + 1,
         stateObjects := (stateObjects st)(stateObjectCount st :=
           \<lparr> rootObject = rootObjectCount st,
             collectionObject =
               \<lparr> astNodeByIdMap = astMapCount st, contextNodeByIdMap = contextMapCount st,
                 parentIdByIdMap = parentMapCount st, childIdsByIdMap = childMapCount st \<rparr>,
             idCounterField = 0,
             leafNodeIdsArray = leafArrayCount st \<rparr>),
         stateObjectCount := stateObjectCount st + 1\<rparr>,
      stateObjectCount st)"

text \<open>
  \<open>startContext\<close> on a session.  It assigns the field \<open>idCounter\<close> of the state object
  (line 79), the maps \<open>parentIdById\<close>, \<open>childIdsById\<close> and \<open>contextNodeById\<close> in place (lines
  90, 95, 97, 110) and node objects; it assigns neither the root, nor the leaf array, nor
  \<open>astNodeById\<close>.
\<close>

definition startContextIn ::
  "'tok Store \<Rightarrow> ref \<Rightarrow> NodeKind \<Rightarrow> nat \<Rightarrow> 'tok option \<Rightarrow> ref option
     \<Rightarrow> 'tok Store \<times> (error + ref)" where
  "startContextIn st state nodeKind tokenIndexStart' maybeTokenStart' maybeParentNode =
     (let stateObject = stateObjects st state;
          c = collectionObject stateObject;
          ((h', s'), r) = startContext (nodeHeap st) (stateOf st state)
                            nodeKind tokenIndexStart' maybeTokenStart' maybeParentNode
      in (st\<lparr>nodeHeap := h',
              stateObjects := (stateObjects st)
                (state := stateObject\<lparr>idCounterField := idCounter s'\<rparr>),
              parentMaps := (parentMaps st)
                (parentIdByIdMap c := parentIdById (nodeIdMapCollection s')),
              childMaps := (childMaps st)
                (childIdsByIdMap c := childIdsById (nodeIdMapCollection s')),
              contextMaps := (contextMaps st)
                (contextNodeByIdMap c := contextNodeById (nodeIdMapCollection s'))\<rparr>, r))"

text \<open>
  \<open>endContext\<close> on a session.  \<open>state.leafNodeIds.push\<close> (line 131) grows the array object
  in place; \<open>contextNodeById.delete\<close> and \<open>astNodeById.set\<close> (lines 143, 146) assign the maps
  in place.
\<close>

definition endContextIn ::
  "'tok Store \<Rightarrow> ref \<Rightarrow> ref \<Rightarrow> ref \<Rightarrow> 'tok Store \<times> (error + ref option)" where
  "endContextIn st state contextNode astNode =
     (let stateObject = stateObjects st state;
          c = collectionObject stateObject;
          ((h', s'), r) = endContext (nodeHeap st) (stateOf st state) contextNode astNode
      in (st\<lparr>nodeHeap := h',
              leafArrays := (leafArrays st)(leafNodeIdsArray stateObject := leafNodeIds s'),
              contextMaps := (contextMaps st)
                (contextNodeByIdMap c := contextNodeById (nodeIdMapCollection s')),
              astMaps := (astMaps st)
                (astNodeByIdMap c := astNodeById (nodeIdMapCollection s'))\<rparr>, r))"

text \<open>
  \<open>deleteContext\<close> on a session.  When the node is registered and its id is among the
  leaf ids, line 169 assigns a new array to the field \<open>state.leafNodeIds\<close> and leaves the
  old array object as it is.  \<open>state.root.maybeNode = childContext\<close> (line 193) assigns the
  root object in place; the maps \<open>childIdsById\<close>, \<open>parentIdById\<close> and \<open>contextNodeById\<close> are
  assigned in place (lines 218-220, 265-268).
\<close>

definition deleteContextIn ::
  "'tok Store \<Rightarrow> ref \<Rightarrow> nat \<Rightarrow> 'tok Store \<times> (error + ref option)" where
  "deleteContextIn st state nodeId =
     (let stateObject = stateObjects st state;
          c = collectionObject stateObject;
          s = stateOf st state;
          ((h', s'), r) = deleteContext (nodeHeap st) s nodeId;
          st1 = (if contextNodeById (nodeIdMapCollection s) nodeId \<noteq> None
                    \<and> indexOf (leafNodeIds s) nodeId \<noteq> None
                 then st\<lparr>leafArrays := (leafArrays st)(leafArrayCount st := leafNodeIds s'),
                         leafArrayCount := leafArrayCount st + 1,
                         stateObjects := (stateObjects st)
                           (state := stateObject\<lparr>leafNodeIdsArray := leafArrayCount st\<rparr>)\<rparr>
                 else st)
      in (st1\<lparr>nodeHeap := h',
               rootObjects := (rootObjects st1)(rootObject stateObject := root s'),
               childMaps := (childMaps st1)
                 (childIdsByIdMap c := childIdsById (nodeIdMapCollection s')),
               parentMaps := (parentMaps st1)
                 (parentIdByIdMap c := parentIdById (nodeIdMapCollection s')),
               contextMaps := (contextMaps st1)
                 (contextNodeByIdMap c := contextNodeById (nodeIdMapCollection s'))\<rparr>, r))"

text \<open>
  Modelled from the spec: \<open>NodeIdMap.deepCopyCollection\<close> as an allocation (its source file
  is not part of the sources).  Sections 4.2 and 5 of the specification: the copy owns
  its own maps, so the four maps of the copy are new map objects; their contents and the
  duplicated context nodes are those of \<open>deepCopyCollection\<close> above, and the ast nodes are
  the shared ones.
\<close>

definition deepCopyCollectionIn ::
  "'tok Store \<Rightarrow> CollectionObject \<Rightarrow> 'tok Store \<times> CollectionObject" where
  "deepCopyCollectionIn st c =
     (let (h', c') = deepCopyCollection (nodeHeap st) (collectionOf st c)
      in (st\<lparr>nodeHeap := h',
              astMaps := (astMaps st)(astMapCount st := astNodeById c'),
              astMapCount := astMapCount st + 1,
              contextMaps := (contextMaps st)(contextMapCount st := contextNodeById c'),
              contextMapCount := contextMapCount st + 1,
              parentMaps := (parentMaps st)(parentMapCount st := parentIdById c'),
              parentMapCount := parentMapCount st + 1,
              childMaps := (childMaps st)(childMapCount st := childIdsById c'),
              childMapCount := childMapCount st + 1\<rparr>,
          \<lparr> astNodeByIdMap = astMapCount st, contextNodeByIdMap = contextMapCount st,
            parentIdByIdMap = parentMapCount st, childIdsByIdMap = childMapCount st \<rparr>))"

text \<open>
  \<open>deepCopy\<close>, lines 226-241.  The collection is copied first (line 227); the root node of
  the copy is looked up in the copied \<open>contextNodeById\<close> under the id of the original root
  node (lines 228-231); the returned object literal creates a new root object (line
  234) and a new state object, with the number \<open>idCounter\<close> (line 238) and the new array
  \<open>state.leafNodeIds.slice()\<close> (line 239).
\<close>

definition deepCopyIn :: "'tok Store \<Rightarrow> ref \<Rightarrow> 'tok Store \<times> ref" where
  "deepCopyIn st state =
     (let stateObject = stateObjects st state;
          (st1, nodeIdMapCollection') = deepCopyCollectionIn st (collectionObject stateObject);
          maybeRootNode =
            (case maybeNode (rootObjects st1 (rootObject stateObject)) of
               Some rootNode \<Rightarrow>
                 contextMaps st1 (contextNodeByIdMap nodeIdMapCollection')
                   (id_ctx (contextObjects (nodeHeap st1) rootNode))
             | None \<Rightarrow> None)
      in (st1\<lparr>rootObjects := (rootObjects st1)
                 (rootObjectCount st1 := \<lparr> maybeNode = maybeRootNode \<rparr>),
               rootObjectCount := rootObjectCount st1 + 1,
               leafArrays := (leafArrays st1)
                 (leafArrayCount st1 := leafArrays st1 (leafNodeIdsArray stateObject)),
               leafArrayCount := leafArrayCount st1 + 1,
               stateObjects := (stateObjects st1)(stateObjectCount st1 :=
                 \<lparr> rootObject = rootObjectCount st1,
                   collectionObject = nodeIdMapCollection',
                   idCounterField = idCounterField stateObject,
                   leafNodeIdsArray = leafArrayCount st1 \<rparr>),
               stateObjectCount := stateObjectCount st1 + 1\<rparr>,
          stateObjectCount st1))"

text \<open>
  For comparison, a copy of the state object alone, as the object spread
  \<open>{ ...state }\<close> would make it: the new state object holds the same root, maps and array.
\<close>

definition shallowCopyIn :: "'tok Store \<Rightarrow> ref \<Rightarrow> 'tok Store \<times> ref" where
  "shallowCopyIn st state =
     (st\<lparr>stateObjects := (stateObjects st)(stateObjectCount st := stateObjects st state),
         stateObjectCount := stateObjectCount st + 1\<rparr>,
      stateObjectCount st)"

text \<open>A sequence of calls on one session.\<close>

fun stepIn :: "ref \<Rightarrow> 'tok Store \<Rightarrow> 'tok Op \<Rightarrow> 'tok Store" where
  "stepIn state st (StartContext nodeKind tokenIndexStart' maybeTokenStart' maybeParentNode) =
     fst (startContextIn st state nodeKind tokenIndexStart' maybeTokenStart' maybeParentNode)"
| "stepIn state st (EndContext contextNode astNode) =
     fst (endContextIn st state contextNode astNode)"
| "stepIn state st (DeleteContext nodeId) = fst (deleteContextIn st state nodeId)"

fun runIn :: "ref \<Rightarrow> 'tok Store \<Rightarrow> 'tok Op list \<Rightarrow> 'tok Store" where
  "runIn state st [] = st"
| "runIn state st (op # ops) = runIn state (stepIn state st op) ops"




text \<open>A store that holds the given ast nodes and nothing else.\<close>

definition storeWith :: "TNode list \<Rightarrow> unit Store" where
  "storeWith astNodes =
     \<lparr> nodeHeap = heapWith astNodes,
       stateObjects =
         (\<lambda>r. \<lparr> rootObject = 0,
                 collectionObject =
                   \<lparr> astNodeByIdMap = 0, contextNodeByIdMap = 0,
                     parentIdByIdMap = 0, childIdsByIdMap = 0 \<rparr>,
                 idCounterField = 0, leafNodeIdsArray = 0 \<rparr>),
       stateObjectCount = 0,
       rootObjects = (\<lambda>r. \<lparr> maybeNode = None \<rparr>),
       rootObjectCount = 0,
       leafArrays = (\<lambda>r. []),
       leafArrayCount = 0,
       astMaps = (\<lambda>r. Map.empty),
       astMapCount = 0,
       contextMaps = (\<lambda>r. Map.empty),
       contextMapCount = 0,
       parentMaps = (\<lambda>r. Map.empty),
       parentMapCount = 0,
       childMaps = (\<lambda>r. Map.empty),
       childMapCount = 0 \<rparr>"

text \<open>The driver installs a context as \<open>root.maybeNode\<close> of a session.\<close>

definition installRootIn :: "'tok Store \<Rightarrow> ref \<Rightarrow> ref \<Rightarrow> 'tok Store" where
  "installRootIn st state node =
     st\<lparr>rootObjects := (rootObjects st)
          (rootObject (stateObjects st state) :=
             (rootObjects st (rootObject (stateObjects st state)))\<lparr>maybeNode := Some node\<rparr>)\<rparr>"

text \<open>
  The session of the deep-copy examples, created by \<open>empty()\<close> as the state object 0: an
  installed root (id 1, node object 0) whose only child (id 2, node object 1) is closed
  as the leaf ast node at ast reference 0, with attribute index 0.  The store also holds
  a leaf ast node with id 3 (ast reference 1) for a context that is opened later.
\<close>

definition originalSession :: "unit Store" where
  "originalSession =
     runIn 0
       (installRootIn
          (runIn 0
             (fst (emptyIn (storeWith
                [\<lparr> id_ast = 2, kind_ast = ''Constant'', isLeaf = True,
                    maybeAttributeIndex_ast = Some 0 \<rparr>,
                 \<lparr> id_ast = 3, kind_ast = ''Constant'', isLeaf = True,
                    maybeAttributeIndex_ast = Some 0 \<rparr>])))
             [StartContext ''ListExpression'' 0 None None]) 0 0)
       [StartContext ''Constant'' 0 None (Some 0),
        EndContext 1 0]"

section \<open>Type-name renderer\<close>

text \<open>
  Modelled from the spec: \<open>TypeUtils.nameOf\<close> and the type descriptors of \<open>Type\<close>, whose
  source files are not part of the sources (only the tests of \<open>nameOf\<close> are).  The
  definitions follow section 4.5 of the specification; the shape of the descriptors
  follows the factory calls of the tests.  A parameter carries the kind of a primitive
  type, which the specification always renders.
\<close>

datatype TypeKind =
    AnyKind | AnyNonNullKind | BinaryKind | DateKind | DateTimeKind | DateTimeZoneKind
  | DurationKind | FunctionKind | ListKind | LogicalKind | NoneKind | NullKind | NumberKind
  | RecordKind | TableKind | TypeKind | ActionKind | TimeKind | NotApplicableKind
  | UnknownKind | TextKind

record FunctionParameter =
  isNullable :: bool
  isOptional :: bool
  maybeType :: TypeKind
  nameLiteral :: string

text \<open>
  The first argument of every variant but \<open>AnyUnion\<close> is the nullable flag; the last
  argument of the record and table variants is the open flag; fields are kept in
  insertion order.
\<close>

datatype TType =
    Primitive bool TypeKind
  | AnyUnion "TType list"
  | DefinedFunction bool "FunctionParameter list" TType
  | DefinedList bool "TType list"
  | DefinedListType bool "TType list"
  | DefinedRecord bool "(string \<times> TType) list" bool
  | DefinedTable bool "(string \<times> TType) list" bool
  | FunctionType bool "FunctionParameter list" TType
  | ListType bool TType
  | PrimaryPrimitiveType bool TType
  | RecordType bool "(string \<times> TType) list" bool
  | TableType bool "(string \<times> TType) list" bool
  | TableTypePrimaryExpression bool TType

fun nameOfTypeKind :: "TypeKind \<Rightarrow> string" where
  "nameOfTypeKind AnyKind = ''any''"
| "nameOfTypeKind AnyNonNullKind = ''anynonnull''"
| "nameOfTypeKind BinaryKind = ''binary''"
| "nameOfTypeKind DateKind = ''date''"
| "nameOfTypeKind DateTimeKind = ''datetime''"
| "nameOfTypeKind DateTimeZoneKind = ''datetimezone''"
| "nameOfTypeKind DurationKind = ''duration''"
| "nameOfTypeKind FunctionKind = ''function''"
| "nameOfTypeKind ListKind = ''list''"
| "nameOfTypeKind LogicalKind = ''logical''"
| "nameOfTypeKind NoneKind = ''none''"
| "nameOfTypeKind NullKind = ''null''"
| "nameOfTypeKind NumberKind = ''number''"
| "nameOfTypeKind RecordKind = ''record''"
| "nameOfTypeKind TableKind = ''table''"
| "nameOfTypeKind TypeKind = ''type''"
| "nameOfTypeKind ActionKind = ''action''"
| "nameOfTypeKind TimeKind = ''time''"
| "nameOfTypeKind NotApplicableKind = ''not applicable''"
| "nameOfTypeKind UnknownKind = ''unknown''"
| "nameOfTypeKind TextKind = ''text''"

text \<open>\<open>Array.prototype.join\<close> on strings.\<close>

fun joinWith :: "string \<Rightarrow> string list \<Rightarrow> string" where
  "joinWith separator [] = []"
| "joinWith separator [x] = x"
| "joinWith separator (x # y # ys) = x @ separator @ joinWith separator (y # ys)"

text \<open>The nullable wrapping: the prefix \<open>nullable\<close> when the flag is set.\<close>

definition nullablePrefix :: "bool \<Rightarrow> string \<Rightarrow> string" where
  "nullablePrefix nullable name = (if nullable then ''nullable '' @ name else name)"

text \<open>A parameter: \<open>name: [optional ][nullable ]type\<close>.\<close>

definition nameOfFunctionParameter :: "FunctionParameter \<Rightarrow> string" where
  "nameOfFunctionParameter parameter =
     nameLiteral parameter @ '': ''
       @ (if isOptional parameter then ''optional '' else [])
       @ (if isNullable parameter then ''nullable '' else [])
       @ nameOfTypeKind (maybeType parameter)"

definition nameOfFunctionParameters :: "FunctionParameter list \<Rightarrow> string" where
  "nameOfFunctionParameters parameters =
     ''('' @ joinWith '', '' (map nameOfFunctionParameter parameters) @ '')''"

text \<open>The bracket group of a record or a table: the fields, then \<open>...\<close> when open.\<close>

definition nameOfFields :: "string list \<Rightarrow> bool \<Rightarrow> string" where
  "nameOfFields rendered isOpen =
     ''['' @ joinWith '', '' (rendered @ (if isOpen then [''...''] else [])) @ '']''"

fun nameOf :: "TType \<Rightarrow> string"
  and nameOfField :: "string \<times> TType \<Rightarrow> string" where
  "nameOf (Primitive nullable kind) =
     (if kind = AnyNonNullKind then nameOfTypeKind kind
      else nullablePrefix nullable (nameOfTypeKind kind))"
| "nameOf (AnyUnion members) = joinWith '' | '' (map nameOf members)"
| "nameOf (DefinedFunction nullable parameters returnType) =
     nullablePrefix nullable
       (nameOfFunctionParameters parameters @ '' => '' @ nameOf returnType)"
| "nameOf (DefinedList nullable elements) =
     nullablePrefix nullable (''{'' @ joinWith '', '' (map nameOf elements) @ ''}'')"
| "nameOf (DefinedListType nullable elements) =
     nullablePrefix nullable (''type {'' @ joinWith '', '' (map nameOf elements) @ ''}'')"
| "nameOf (DefinedRecord nullable entries isOpen) =
     nullablePrefix nullable (nameOfFields (map nameOfField entries) isOpen)"
| "nameOf (DefinedTable nullable entries isOpen) =
     nullablePrefix nullable (''table '' @ nameOfFields (map nameOfField entries) isOpen)"
| "nameOf (FunctionType nullable parameters returnType) =
     nullablePrefix nullable
       (''type function '' @ nameOfFunctionParameters parameters @ '' '' @ nameOf returnType)"
| "nameOf (ListType nullable itemType) =
     nullablePrefix nullable (''type {'' @ nameOf itemType @ ''}'')"
| "nameOf (PrimaryPrimitiveType nullable primitiveType) =
     nullablePrefix nullable (''type '' @ nameOf primitiveType)"
| "nameOf (RecordType nullable entries isOpen) =
     nullablePrefix nullable (''type '' @ nameOfFields (map nameOfField entries) isOpen)"
| "nameOf (TableType nullable entries isOpen) =
     nullablePrefix nullable (''type table '' @ nameOfFields (map nameOfField entries) isOpen)"
| "nameOf (TableTypePrimaryExpression nullable primaryExpression) =
     nullablePrefix nullable (''type table '' @ nameOf primaryExpression)"
| "nameOfField (key, fieldType) = key @ '': '' @ nameOf fieldType"

text \<open>The descriptors of the two tests with four parameters.\<close>

definition allParameterFlavors :: "FunctionParameter list" where
  "allParameterFlavors =
     [\<lparr> isNullable = False, isOptional = False, maybeType = NumberKind,
         nameLiteral = ''param1'' \<rparr>,
      \<lparr> isNullable = True, isOptional = False, maybeType = NumberKind,
         nameLiteral = ''param2'' \<rparr>,
      \<lparr> isNullable = False, isOptional = True, maybeType = NumberKind,
         nameLiteral = ''param3'' \<rparr>,
      \<lparr> isNullable = True, isOptional = True, maybeType = NumberKind,
         nameLiteral = ''param4'' \<rparr>]"

section \<open>Evaluation and frame lemmas\<close>

lemmas lifecycle_defs =
  startContext_def endContext_def deleteContext_def deleteContext_notLeaf_def
  removeOrReplaceChildId_def expectChildIds_def expectXorNode_def expectContextNode_def

lemmas driver_defs = heapWith_def newAstNode_def emptyHeap_def empty_def Let_def

subsection \<open>Arrays\<close>

lemma indexOf_Some:
  "indexOf xs x = Some i \<Longrightarrow> i < length xs \<and> xs ! i = x"
  by (induction xs arbitrary: i) (auto split: if_splits)

lemma indexOf_replace:
  "indexOf xs x = Some i \<Longrightarrow> take i xs @ [y] @ drop (i + 1) xs = xs[i := y]"
  by (simp add: indexOf_Some upd_conv_take_nth_drop)

lemma singleton_list: "length xs = Suc 0 \<Longrightarrow> xs = [xs ! 0]"
  by (cases xs) auto

subsection \<open>What \<open>startContext\<close> assigns\<close>

lemma startContext_contextObjectCount:
  "contextObjectCount (fst (fst (startContext h s nodeKind t tok p))) = contextObjectCount h + 1"
  by (simp add: startContext_def Let_def split: option.splits)

lemma startContext_astObjects:
  "astObjects (fst (fst (startContext h s nodeKind t tok p))) = astObjects h"
  by (simp add: startContext_def Let_def split: option.splits)

lemma startContext_contextObjects:
  "r \<noteq> contextObjectCount h \<Longrightarrow>
     contextObjects (fst (fst (startContext h s nodeKind t tok p))) r =
       (if p = Some r
        then (contextObjects h r)\<lparr>attributeCounter := attributeCounter (contextObjects h r) + 1\<rparr>
        else contextObjects h r)"
  by (simp add: startContext_def Let_def split: option.splits)


subsection \<open>What \<open>endContext\<close> assigns\<close>

lemma endContext_astObjects:
  "astObjects (fst (fst (endContext h s contextNode astNode))) = astObjects h"
  by (simp add: endContext_def Let_def)

lemma endContext_contextObjectCount:
  "contextObjectCount (fst (fst (endContext h s contextNode astNode))) = contextObjectCount h"
  by (simp add: endContext_def Let_def)

lemma endContext_contextObjects:
  "contextObjects (fst (fst (endContext h s contextNode astNode))) r = contextObjects h r
   \<or> r = contextNode \<and> contextObjects (fst (fst (endContext h s contextNode astNode))) r =
        (contextObjects h r)\<lparr>maybeAstNode := Some astNode\<rparr>"
  by (simp add: endContext_def Let_def)


subsection \<open>What \<open>deleteContext\<close> assigns\<close>

lemma removeOrReplaceChildId_objects:
  "removeOrReplaceChildId c parentId childId maybeReplacementId = Inr c'
     \<Longrightarrow> contextNodeById c' = contextNodeById c \<and> astNodeById c' = astNodeById c"
  by (auto simp: removeOrReplaceChildId_def expectChildIds_def Let_def
        split: option.splits sum.splits if_splits)

text \<open>
  The store after the branch for a node with children: untouched, or the attribute index
  of the child object is assigned, in the context realm or in the ast realm.
\<close>

lemma deleteContext_notLeaf_heap:
  "fst (fst (deleteContext_notLeaf h s node nodeId maybeParentId childIds)) = h
   \<or> (\<exists>child. contextNodeById (nodeIdMapCollection s) (childIds ! 0) = Some child
         \<and> length childIds = 1
         \<and> fst (fst (deleteContext_notLeaf h s node nodeId maybeParentId childIds)) =
             h\<lparr>contextObjects := (contextObjects h)
               (child := (contextObjects h child)
                  \<lparr>maybeAttributeIndex_ctx := maybeAttributeIndex_ctx (contextObjects h node)\<rparr>)\<rparr>)
   \<or> (\<exists>child. astNodeById (nodeIdMapCollection s) (childIds ! 0) = Some child
         \<and> length childIds = 1
         \<and> fst (fst (deleteContext_notLeaf h s node nodeId maybeParentId childIds)) =
             h\<lparr>astObjects := (astObjects h)
               (child := (astObjects h child)
                  \<lparr>maybeAttributeIndex_ast := maybeAttributeIndex_ctx (contextObjects h node)\<rparr>)\<rparr>)"
  by (auto simp: deleteContext_notLeaf_def expectXorNode_def Let_def
        dest!: removeOrReplaceChildId_objects
        split: option.splits sum.splits XorNode.splits)


lemma deleteContext_heap:
  "fst (fst (deleteContext h s nodeId)) = h
   \<or> (\<exists>node childId child. contextNodeById (nodeIdMapCollection s) nodeId = Some node
         \<and> childIdsById (nodeIdMapCollection s) nodeId = Some [childId]
         \<and> contextNodeById (nodeIdMapCollection s) childId = Some child
         \<and> fst (fst (deleteContext h s nodeId)) =
             h\<lparr>contextObjects := (contextObjects h)
               (child := (contextObjects h child)
                  \<lparr>maybeAttributeIndex_ctx := maybeAttributeIndex_ctx (contextObjects h node)\<rparr>)\<rparr>)
   \<or> (\<exists>node childId child. contextNodeById (nodeIdMapCollection s) nodeId = Some node
         \<and> childIdsById (nodeIdMapCollection s) nodeId = Some [childId]
         \<and> astNodeById (nodeIdMapCollection s) childId = Some child
         \<and> fst (fst (deleteContext h s nodeId)) =
             h\<lparr>astObjects := (astObjects h)
               (child := (astObjects h child)
                  \<lparr>maybeAttributeIndex_ast := maybeAttributeIndex_ctx (contextObjects h node)\<rparr>)\<rparr>)"
proof (cases "contextNodeById (nodeIdMapCollection s) nodeId")
  case None
  then show ?thesis by (simp add: deleteContext_def)
next
  case (Some node)
  define s1 where
    "s1 = (case indexOf (leafNodeIds s) nodeId of
             None \<Rightarrow> s
           | Some leafIndex \<Rightarrow>
               s\<lparr>leafNodeIds := take leafIndex (leafNodeIds s)
                                  @ drop (leafIndex + 1) (leafNodeIds s)\<rparr>)"
  have c1: "nodeIdMapCollection s1 = nodeIdMapCollection s"
    by (simp add: s1_def split: option.splits)
  show ?thesis
  proof (cases "childIdsById (nodeIdMapCollection s) nodeId")
    case None
    with Some c1 show ?thesis
      by (auto simp: deleteContext_def s1_def[symmetric] Let_def expectContextNode_def
            split: option.splits sum.splits prod.splits)
  next
    case (Some childIds)
    note notLeaf = deleteContext_notLeaf_heap[of h s1 node nodeId
        "parentIdById (nodeIdMapCollection s) nodeId" childIds]
    have eq: "fst (fst (deleteContext h s nodeId)) =
              fst (fst (deleteContext_notLeaf h s1 node nodeId
                 (parentIdById (nodeIdMapCollection s) nodeId) childIds))"
      using Some \<open>contextNodeById (nodeIdMapCollection s) nodeId = Some node\<close> c1
      by (auto simp: deleteContext_def s1_def[symmetric] Let_def expectContextNode_def
            split: option.splits sum.splits prod.splits)
    from notLeaf show ?thesis
      unfolding eq c1
      using Some \<open>contextNodeById (nodeIdMapCollection s) nodeId = Some node\<close>
      by (auto dest: singleton_list)
  qed
qed


lemma deleteContext_contextObjectCount:
  "contextObjectCount (fst (fst (deleteContext h s nodeId))) = contextObjectCount h"
  using deleteContext_heap[of h s nodeId] by auto

lemma deleteContext_attributeCounter:
  "attributeCounter (contextObjects (fst (fst (deleteContext h s nodeId))) r) =
     attributeCounter (contextObjects h r)"
  using deleteContext_heap[of h s nodeId] by auto

text \<open>A node whose entry in \<open>childIdsById\<close> does not hold exactly one id cannot be deleted.\<close>

lemma deleteContext_not_one_child:
  assumes "contextNodeById (nodeIdMapCollection s) nodeId = Some node"
    and "childIdsById (nodeIdMapCollection s) nodeId = Some childIds"
    and "length childIds \<noteq> 1"
  shows "snd (deleteContext h s nodeId) = Inl (InvariantError ''childIds.length !== 0'')"
  using assms
  by (auto simp: deleteContext_def deleteContext_notLeaf_def Let_def split: option.splits)

text \<open>
  A registered node with no entry in \<open>childIdsById\<close> is deleted as a leaf: without a parent
  entry nothing else changes, and under an open parent that lists it the id is taken out
  of the parent's children.
\<close>

lemma deleteContext_leaf_root:
  assumes "contextNodeById (nodeIdMapCollection s) nodeId = Some node"
    and "childIdsById (nodeIdMapCollection s) nodeId = None"
    and "parentIdById (nodeIdMapCollection s) nodeId = None"
  shows "snd (deleteContext h s nodeId) = Inr None
     \<and> contextNodeById (nodeIdMapCollection (snd (fst (deleteContext h s nodeId)))) nodeId = None
     \<and> childIdsById (nodeIdMapCollection (snd (fst (deleteContext h s nodeId))))
         = childIdsById (nodeIdMapCollection s)"
  using assms
  by (auto simp: deleteContext_def Let_def split: option.splits)

lemma deleteContext_leaf_child:
  assumes "contextNodeById (nodeIdMapCollection s) nodeId = Some node"
    and "childIdsById (nodeIdMapCollection s) nodeId = None"
    and "parentIdById (nodeIdMapCollection s) nodeId = Some parentId"
    and "contextNodeById (nodeIdMapCollection s) parentId = Some parentNode"
    and "childIdsById (nodeIdMapCollection s) parentId = Some siblings"
    and "indexOf siblings nodeId = Some i"
    and "0 < parentId" and "nodeId \<noteq> parentId"
  shows "snd (deleteContext h s nodeId) = Inr (Some parentNode)
     \<and> contextNodeById (nodeIdMapCollection (snd (fst (deleteContext h s nodeId)))) nodeId = None
     \<and> childIdsById (nodeIdMapCollection (snd (fst (deleteContext h s nodeId)))) parentId
         = Some (take i siblings @ drop (i + 1) siblings)"
  using assms
  by (auto simp: lifecycle_defs Let_def split: option.splits)

subsection \<open>Sequences of calls\<close>

lemma step_contextObjectCount:
  "contextObjectCount (fst w) \<le> contextObjectCount (fst (step w op))"
  by (cases w; cases op)
     (simp_all add: startContext_contextObjectCount endContext_contextObjectCount
        deleteContext_contextObjectCount)

lemma step_attributeCounter:
  assumes "r < contextObjectCount (fst w)"
  shows "attributeCounter (contextObjects (fst (step w op)) r) =
           attributeCounter (contextObjects (fst w) r) + (if startsUnder r op then 1 else 0)"
proof (cases w)
  case (Pair h s)
  show ?thesis
  proof (cases op)
    case (StartContext nodeKind t tok p)
    with Pair assms show ?thesis by (simp add: startContext_contextObjects)
  next
    case (EndContext contextNode astNode)
    with Pair endContext_contextObjects[of h s contextNode astNode r] show ?thesis by auto
  next
    case (DeleteContext nodeId)
    with Pair show ?thesis by (simp add: deleteContext_attributeCounter)
  qed
qed

lemma run_attributeCounter:
  "r < contextObjectCount (fst w) \<Longrightarrow>
     attributeCounter (contextObjects (fst (run w ops)) r) =
       attributeCounter (contextObjects (fst w) r) + length (filter (startsUnder r) ops)"
proof (induction ops arbitrary: w)
  case Nil
  then show ?case by simp
next
  case (Cons op ops)
  have "r < contextObjectCount (fst (step w op))"
    using Cons.prems step_contextObjectCount[of w op] by simp
  from Cons.IH[OF this] step_attributeCounter[OF Cons.prems, of op]
  show ?case by simp
qed

lemma run_append: "run w (ops @ later) = run (run w ops) later"
  by (induction ops arbitrary: w) simp_all

lemma run_contextObjectCount:
  "contextObjectCount (fst w) \<le> contextObjectCount (fst (run w ops))"
proof (induction ops arbitrary: w)
  case Nil
  show ?case by simp
next
  case (Cons op ops)
  from step_contextObjectCount[of w op] Cons[of "step w op"] show ?case by simp
qed







subsection \<open>Sessions as objects\<close>

lemmas store_defs =
  startContextIn_def endContextIn_def deleteContextIn_def deepCopyIn_def
  deepCopyCollectionIn_def deepCopyCollection_def emptyIn_def installRootIn_def
  shallowCopyIn_def storeWith_def stateOf_def collectionOf_def















subsection \<open>Deep copies\<close>





lemma deepCopyIn_duplicates:
  assumes "contextNodeById (nodeIdMapCollection (stateOf st state)) k = Some r"
    and "r < contextObjectCount (nodeHeap st)"
  shows "contextObjects (nodeHeap (fst (deepCopyIn st state)))
           (r + contextObjectCount (nodeHeap st))
         = contextObjects (nodeHeap st) r"
  using assms
  by (simp add: deepCopyIn_def deepCopyCollectionIn_def deepCopyCollection_def Let_def)

text \<open>
  The containers matter: after a copy of the state object alone, a context opened and
  closed as a leaf in the copy shows in the maps and the leaf ids of the original, while
  the counter of the original stays behind.
\<close>

lemma shallow_copy_is_not_independent:
  "snd (shallowCopyIn originalSession 0) = 1
   \<and> leafNodeIds (stateOf originalSession 0) = [2]
   \<and> idCounter (stateOf originalSession 0) = 2
   \<and> contextNodeById (nodeIdMapCollection (stateOf originalSession 0)) 3 = None
   \<and> leafNodeIds (stateOf (runIn 1 (fst (shallowCopyIn originalSession 0))
         [StartContext ''Constant'' 1 None (Some 0), EndContext 2 1]) 0) = [2, 3]
   \<and> astNodeById (nodeIdMapCollection (stateOf (runIn 1 (fst (shallowCopyIn originalSession 0))
         [StartContext ''Constant'' 1 None (Some 0), EndContext 2 1]) 0)) 3 = Some 1
   \<and> idCounter (stateOf (runIn 1 (fst (shallowCopyIn originalSession 0))
         [StartContext ''Constant'' 1 None (Some 0), EndContext 2 1]) 0) = 2"
  by (simp add: originalSession_def store_defs lifecycle_defs driver_defs)

subsection \<open>The renderer on the descriptors of its tests\<close>

lemma nameOf_primitive_tests:
  "nameOf (Primitive False AnyKind) = ''any''
   \<and> nameOf (Primitive False AnyNonNullKind) = ''anynonnull''
   \<and> nameOf (Primitive False NotApplicableKind) = ''not applicable''
   \<and> nameOf (Primitive True AnyKind) = ''nullable any''
   \<and> nameOf (Primitive True NumberKind) = ''nullable number''
   \<and> nameOf (Primitive True NotApplicableKind) = ''nullable not applicable''"
  by (simp add: nullablePrefix_def)

lemma nameOf_extended_tests:
  "nameOf (AnyUnion [Primitive False NumberKind, Primitive False ListKind]) = ''number | list''
   \<and> nameOf (AnyUnion
         [DefinedRecord False [(''foo'', Primitive False NumberKind)] False,
          DefinedList False [Primitive False TextKind],
          DefinedTable False [(''bar'', Primitive False TextKind)] True])
       = ''[foo: number] | {text} | table [bar: text, ...]''
   \<and> nameOf (DefinedFunction False [] (Primitive False AnyKind)) = ''() => any''
   \<and> nameOf (DefinedFunction False [] (Primitive True AnyKind)) = ''() => nullable any''
   \<and> nameOf (DefinedList True []) = ''nullable {}''
   \<and> nameOf (DefinedListType False [Primitive False NumberKind, Primitive True TextKind])
       = ''type {number, nullable text}''
   \<and> nameOf (DefinedRecord False [] True) = ''[...]''
   \<and> nameOf (DefinedTable False
         [(''foo'', Primitive False NumberKind), (''bar'', Primitive True TextKind)] True)
       = ''table [foo: number, bar: nullable text, ...]''
   \<and> nameOf (FunctionType False [] (Primitive False AnyKind)) = ''type function () any''
   \<and> nameOf (ListType False (Primitive False TextKind)) = ''type {text}''
   \<and> nameOf (PrimaryPrimitiveType False (Primitive False TextKind)) = ''type text''
   \<and> nameOf (RecordType False [] True) = ''type [...]''
   \<and> nameOf (TableType False [(''foo'', Primitive False NumberKind)] False)
       = ''type table [foo: number]''
   \<and> nameOf (TableTypePrimaryExpression False (Primitive False TextKind)) = ''type table text''"
  by (simp add: nullablePrefix_def nameOfFields_def nameOfFunctionParameters_def)

section \<open>Scenario S2\<close>

text \<open>
  Claim C1.  Scenario S2 runs without an error, and in the state it reaches
  \<open>contextNodeById\<close> has exactly the keys 1 and 6, \<open>astNodeById\<close> has exactly the keys 2, 3,
  4 and 5, the children of id 1 are \<open>[2, 3, 6]\<close>, \<open>leafNodeIds\<close> is \<open>[2, 4, 5]\<close> and
  \<open>idCounter\<close> is 6.
\<close>

theorem scenarioS2_state:
  "\<exists>h s. scenarioS2 = Some (h, s)
     \<and> dom (contextNodeById (nodeIdMapCollection s)) = {1, 6}
     \<and> dom (astNodeById (nodeIdMapCollection s)) = {2, 3, 4, 5}
     \<and> childIdsById (nodeIdMapCollection s) 1 = Some [2, 3, 6]
     \<and> leafNodeIds s = [2, 4, 5]
     \<and> idCounter s = 6"
  by (auto simp add: scenarioS2_def startContext_def endContext_def closeContext_def
        newAstNode_def emptyHeap_def empty_def Let_def)

section \<open>Deleting a context whose children were deleted\<close>

text \<open>
  Claim C2, evaluated where the code departs from it.  A root (id 1) opens one child
  (id 2) and the child is deleted again, which succeeds.  The root is registered and has
  no child left, but \<open>removeOrReplaceChildId\<close> has left the empty array under its id in
  \<open>childIdsById\<close>, so \<open>deleteContext\<close> takes the branch for a node with children and
  throws.
\<close>

theorem deleteContext_emptied_parent_fails:
  "childIdsById (nodeIdMapCollection (snd parentWithChild)) 1 = Some [2]
   \<and> snd (deleteContext (fst parentWithChild) (snd parentWithChild) 2) = Inr (Some 0)
   \<and> contextNodeById (nodeIdMapCollection (snd emptiedParent)) 1 = Some 0
   \<and> parentIdById (nodeIdMapCollection (snd emptiedParent)) 1 = None
   \<and> childIdsById (nodeIdMapCollection (snd emptiedParent)) 1 = Some []
   \<and> snd (deleteContext (fst emptiedParent) (snd emptiedParent) 1)
       = Inl (InvariantError ''childIds.length !== 0'')"
  by (simp add: emptiedParent_def parentWithChild_def lifecycle_defs driver_defs)

section \<open>Root collapse\<close>

text \<open>
  Claim C3, as the code has it.  When a registered context with no parent entry and
  exactly one child is deleted, \<open>root.maybeNode\<close> becomes the child context if the child is
  registered in \<open>contextNodeById\<close> and keeps its old value otherwise; the call returns
  \<open>undefined\<close> if the child id is registered in one of the two object maps and fails
  otherwise.
\<close>

theorem deleteContext_root_collapse:
  assumes "deleteContext h s nodeId = ((h', s'), r)"
    and "contextNodeById (nodeIdMapCollection s) nodeId = Some node"
    and "parentIdById (nodeIdMapCollection s) nodeId = None"
    and "childIdsById (nodeIdMapCollection s) nodeId = Some [childId]"
  shows "maybeNode (root s') =
           (case contextNodeById (nodeIdMapCollection s) childId of
              Some child \<Rightarrow> Some child
            | None \<Rightarrow> maybeNode (root s))
     \<and> r = (case expectXorNode (nodeIdMapCollection s) childId of
              Inl e \<Rightarrow> Inl e
            | Inr child \<Rightarrow> Inr None)"
  using assms
  by (auto simp: lifecycle_defs Let_def split: option.splits)

text \<open>Witness for C3: the root with one open child; the child object becomes the root.\<close>

theorem deleteContext_root_collapse_witness:
  "contextNodeById (nodeIdMapCollection (snd rootWithOpenChild)) 1 = Some 0
   \<and> parentIdById (nodeIdMapCollection (snd rootWithOpenChild)) 1 = None
   \<and> childIdsById (nodeIdMapCollection (snd rootWithOpenChild)) 1 = Some [2]
   \<and> contextNodeById (nodeIdMapCollection (snd rootWithOpenChild)) 2 = Some 1
   \<and> maybeNode (root (snd rootWithOpenChild)) = Some 0
   \<and> maybeNode (root (snd (fst
         (deleteContext (fst rootWithOpenChild) (snd rootWithOpenChild) 1)))) = Some 1
   \<and> snd (deleteContext (fst rootWithOpenChild) (snd rootWithOpenChild) 1) = Inr None"
  using deleteContext_root_collapse
    [of "fst rootWithOpenChild" "snd rootWithOpenChild" 1
        "fst (fst (deleteContext (fst rootWithOpenChild) (snd rootWithOpenChild) 1))"
        "snd (fst (deleteContext (fst rootWithOpenChild) (snd rootWithOpenChild) 1))"
        "snd (deleteContext (fst rootWithOpenChild) (snd rootWithOpenChild) 1)" 0 2]
  by (simp add: rootWithOpenChild_def lifecycle_defs driver_defs)

text \<open>
  Counterexample to C3 as stated: the installed root (id 1, object 0) has one child
  (id 2) that is already closed.  Deleting the root succeeds; afterwards \<open>root.maybeNode\<close>
  is still the deleted object, whose id is 1 and not the id 2 of the closed child, and
  id 1 is registered in neither object map.
\<close>

theorem root_collapse_closed_child_counterexample:
  "contextNodeById (nodeIdMapCollection (snd rootWithClosedChild)) 1 = Some 0
   \<and> maybeNode (root (snd rootWithClosedChild)) = Some 0
   \<and> parentIdById (nodeIdMapCollection (snd rootWithClosedChild)) 1 = None
   \<and> childIdsById (nodeIdMapCollection (snd rootWithClosedChild)) 1 = Some [2]
   \<and> contextNodeById (nodeIdMapCollection (snd rootWithClosedChild)) 2 = None
   \<and> astNodeById (nodeIdMapCollection (snd rootWithClosedChild)) 2 = Some 0
   \<and> snd (deleteContext (fst rootWithClosedChild) (snd rootWithClosedChild) 1) = Inr None
   \<and> maybeNode (root (snd (fst
         (deleteContext (fst rootWithClosedChild) (snd rootWithClosedChild) 1)))) = Some 0
   \<and> id_ctx (contextObjects (fst (fst
         (deleteContext (fst rootWithClosedChild) (snd rootWithClosedChild) 1))) 0) = 1
   \<and> contextNodeById (nodeIdMapCollection (snd (fst
         (deleteContext (fst rootWithClosedChild) (snd rootWithClosedChild) 1)))) 1 = None
   \<and> astNodeById (nodeIdMapCollection (snd (fst
         (deleteContext (fst rootWithClosedChild) (snd rootWithClosedChild) 1)))) 1 = None"
  by (simp add: rootWithClosedChild_def rootWithOpenChild_def lifecycle_defs driver_defs)

section \<open>Ast nodes under the lifecycle operations\<close>

text \<open>
  Claim C4, as the code has it.  \<open>startContext\<close> and \<open>endContext\<close> assign no field of any ast
  node.  \<open>deleteContext\<close> assigns no field of any ast node either, except when the deleted
  context has exactly one child and that child is closed: then it assigns the
  \<open>maybeAttributeIndex\<close> of the child ast node, to the attribute index of the deleted
  context, and nothing else.
\<close>

theorem ast_nodes_only_reindexed:
  "astObjects (fst (fst (startContext h s nodeKind t tok maybeParentNode))) = astObjects h
   \<and> astObjects (fst (fst (endContext h s contextNode astNode))) = astObjects h
   \<and> (astObjects (fst (fst (deleteContext h s nodeId))) = astObjects h
      \<or> (\<exists>node childId child.
            contextNodeById (nodeIdMapCollection s) nodeId = Some node
          \<and> childIdsById (nodeIdMapCollection s) nodeId = Some [childId]
          \<and> astNodeById (nodeIdMapCollection s) childId = Some child
          \<and> astObjects (fst (fst (deleteContext h s nodeId))) =
               (astObjects h)(child := (astObjects h child)
                  \<lparr>maybeAttributeIndex_ast := maybeAttributeIndex_ctx (contextObjects h node)\<rparr>)))"
proof -
  from deleteContext_heap[of h s nodeId]
  have "astObjects (fst (fst (deleteContext h s nodeId))) = astObjects h
      \<or> (\<exists>node childId child.
            contextNodeById (nodeIdMapCollection s) nodeId = Some node
          \<and> childIdsById (nodeIdMapCollection s) nodeId = Some [childId]
          \<and> astNodeById (nodeIdMapCollection s) childId = Some child
          \<and> astObjects (fst (fst (deleteContext h s nodeId))) =
               (astObjects h)(child := (astObjects h child)
                  \<lparr>maybeAttributeIndex_ast := maybeAttributeIndex_ctx (contextObjects h node)\<rparr>))"
    by (elim disjE exE conjE) (simp, simp, (rule disjI2, force))
  then show ?thesis
    by (simp add: startContext_astObjects endContext_astObjects)
qed

text \<open>
  Counterexample to C4 as stated: the open context with id 3 (attribute index 1) has the
  single child with id 4, closed as the ast node at ast reference 0 with attribute index
  0.  Deleting the context with id 3 succeeds and changes the attribute index of that
  ast node to 1.
\<close>

theorem ast_node_reindexed_counterexample:
  "contextNodeById (nodeIdMapCollection (snd closedGrandchild)) 3 = Some 2
   \<and> childIdsById (nodeIdMapCollection (snd closedGrandchild)) 3 = Some [4]
   \<and> astNodeById (nodeIdMapCollection (snd closedGrandchild)) 4 = Some 0
   \<and> maybeAttributeIndex_ast (astObjects (fst closedGrandchild) 0) = Some 0
   \<and> snd (deleteContext (fst closedGrandchild) (snd closedGrandchild) 3) = Inr (Some 0)
   \<and> astNodeById (nodeIdMapCollection (snd (fst
         (deleteContext (fst closedGrandchild) (snd closedGrandchild) 3)))) 4 = Some 0
   \<and> maybeAttributeIndex_ast (astObjects (fst (fst
         (deleteContext (fst closedGrandchild) (snd closedGrandchild) 3))) 0) = Some 1"
  by (simp add: closedGrandchild_def lifecycle_defs driver_defs)

section \<open>Interior collapse\<close>

text \<open>
  Claim C5.  Let the open context \<open>nodeId\<close> have exactly one child \<open>childId\<close>, registered
  as a context or as an ast node, and the open parent \<open>parentId\<close>, among whose children it
  stands at index \<open>i\<close>; the three ids are those of a chain, so the node is neither its
  child nor its parent, and ids are positive.  Then \<open>deleteContext\<close> returns the parent
  context, puts \<open>childId\<close> at index \<open>i\<close> of the parent's children and leaves all other
  positions as they were, sets the parent of \<open>childId\<close> to \<open>parentId\<close>, gives the child the
  attribute index of the deleted node, and removes \<open>nodeId\<close> from \<open>contextNodeById\<close>,
  \<open>childIdsById\<close> and \<open>parentIdById\<close>.
\<close>

theorem deleteContext_interior_collapse:
  assumes "deleteContext h s nodeId = ((h', s'), r)"
    and "contextNodeById (nodeIdMapCollection s) nodeId = Some node"
    and "childIdsById (nodeIdMapCollection s) nodeId = Some [childId]"
    and "parentIdById (nodeIdMapCollection s) nodeId = Some parentId"
    and "contextNodeById (nodeIdMapCollection s) parentId = Some parentNode"
    and "childIdsById (nodeIdMapCollection s) parentId = Some siblings"
    and "indexOf siblings nodeId = Some i"
    and "expectXorNode (nodeIdMapCollection s) childId = Inr child"
    and "0 < childId" and "nodeId \<noteq> childId" and "nodeId \<noteq> parentId"
  shows "r = Inr (Some parentNode)
     \<and> i < length siblings \<and> siblings ! i = nodeId
     \<and> childIdsById (nodeIdMapCollection s') parentId = Some (siblings[i := childId])
     \<and> parentIdById (nodeIdMapCollection s') childId = Some parentId
     \<and> attributeIndexOf h' (nodeIdMapCollection s') childId
           = maybeAttributeIndex_ctx (contextObjects h node)
     \<and> contextNodeById (nodeIdMapCollection s') nodeId = None
     \<and> childIdsById (nodeIdMapCollection s') nodeId = None
     \<and> parentIdById (nodeIdMapCollection s') nodeId = None"
proof -
  note position = indexOf_replace[OF assms(7), of childId] indexOf_Some[OF assms(7)]
  from assms(8) consider
      (ast) astNode where "astNodeById (nodeIdMapCollection s) childId = Some astNode"
    | (ctx) contextNode where "astNodeById (nodeIdMapCollection s) childId = None"
        "contextNodeById (nodeIdMapCollection s) childId = Some contextNode"
    by (auto simp: expectXorNode_def split: option.splits)
  then show ?thesis
  proof cases
    case ast
    with assms(1-7,9-11) position show ?thesis
      by (auto simp: lifecycle_defs attributeIndexOf_def Let_def split: option.splits)
  next
    case ctx
    with assms(1-7,9-11) position show ?thesis
      by (auto simp: lifecycle_defs attributeIndexOf_def Let_def split: option.splits)
  qed
qed

text \<open>
  Witness for C5: the root (id 1) has the children 2, 3 and 4, and the context with id 3
  (attribute index 1) has the open child with id 5.  Deleting id 3 leaves the children
  2, 5 and 4.
\<close>

theorem deleteContext_interior_collapse_witness:
  "contextNodeById (nodeIdMapCollection (snd threeGenerations)) 3 = Some 2
   \<and> childIdsById (nodeIdMapCollection (snd threeGenerations)) 3 = Some [5]
   \<and> parentIdById (nodeIdMapCollection (snd threeGenerations)) 3 = Some 1
   \<and> contextNodeById (nodeIdMapCollection (snd threeGenerations)) 1 = Some 0
   \<and> childIdsById (nodeIdMapCollection (snd threeGenerations)) 1 = Some [2, 3, 4]
   \<and> indexOf [2, 3, 4] 3 = Some 1
   \<and> expectXorNode (nodeIdMapCollection (snd threeGenerations)) 5 = Inr (ContextXor 4)
   \<and> maybeAttributeIndex_ctx (contextObjects (fst threeGenerations) 2) = Some 1
   \<and> snd (deleteContext (fst threeGenerations) (snd threeGenerations) 3) = Inr (Some 0)
   \<and> childIdsById (nodeIdMapCollection (snd (fst
         (deleteContext (fst threeGenerations) (snd threeGenerations) 3)))) 1 = Some [2, 5, 4]
   \<and> parentIdById (nodeIdMapCollection (snd (fst
         (deleteContext (fst threeGenerations) (snd threeGenerations) 3)))) 5 = Some 1
   \<and> attributeIndexOf
         (fst (fst (deleteContext (fst threeGenerations) (snd threeGenerations) 3)))
         (nodeIdMapCollection (snd (fst
           (deleteContext (fst threeGenerations) (snd threeGenerations) 3)))) 5 = Some 1
   \<and> contextNodeById (nodeIdMapCollection (snd (fst
         (deleteContext (fst threeGenerations) (snd threeGenerations) 3)))) 3 = None"
  using deleteContext_interior_collapse
    [of "fst threeGenerations" "snd threeGenerations" 3
        "fst (fst (deleteContext (fst threeGenerations) (snd threeGenerations) 3))"
        "snd (fst (deleteContext (fst threeGenerations) (snd threeGenerations) 3))"
        "snd (deleteContext (fst threeGenerations) (snd threeGenerations) 3)"
        2 5 1 0 "[2, 3, 4]" 1 "ContextXor 4"]
  by (simp add: threeGenerations_def attributeIndexOf_def lifecycle_defs driver_defs)

section \<open>The attribute counter\<close>

text \<open>
  Claim C6.  For every context node that exists and every sequence of \<open>startContext\<close>,
  \<open>endContext\<close> and \<open>deleteContext\<close> calls, the \<open>attributeCounter\<close> of the node after the
  sequence is its value before plus the number of \<open>startContext\<close> calls that got the node
  as parent; it is at least its value before, and any further calls leave it at least as
  large, whatever is deleted.
\<close>

theorem attributeCounter_monotone:
  assumes "node < contextObjectCount h"
  shows "attributeCounter (contextObjects (fst (run (h, s) ops)) node) =
           attributeCounter (contextObjects h node) + length (filter (startsUnder node) ops)
         \<and> attributeCounter (contextObjects h node)
             \<le> attributeCounter (contextObjects (fst (run (h, s) ops)) node)
         \<and> attributeCounter (contextObjects (fst (run (h, s) ops)) node)
             \<le> attributeCounter (contextObjects (fst (run (h, s) (ops @ later))) node)"
proof -
  have "node < contextObjectCount (fst (run (h, s) ops))"
    using assms run_contextObjectCount[of "(h, s)" ops] by simp
  from run_attributeCounter[OF this, of later] run_attributeCounter[of node "(h, s)" ops] assms
  show ?thesis by (simp add: run_append)
qed

text \<open>
  Witness for C6: the root above has opened three children.  Two contexts are deleted,
  one of them a child of the root, and one more child is opened: the counter goes from 3
  to 4.
\<close>

theorem attributeCounter_monotone_witness:
  "0 < contextObjectCount (fst threeGenerations)
   \<and> attributeCounter (contextObjects (fst threeGenerations) 0) = 3
   \<and> attributeCounter (contextObjects (fst (run (fst threeGenerations, snd threeGenerations)
         [DeleteContext 5, DeleteContext 2, StartContext ''Csv'' 4 None (Some 0)])) 0) = 4"
  using attributeCounter_monotone
    [of 0 "fst threeGenerations" "snd threeGenerations"
        "[DeleteContext 5, DeleteContext 2, StartContext ''Csv'' 4 None (Some 0)]" "[]"]
  by (simp add: threeGenerations_def lifecycle_defs driver_defs)

section \<open>The parent handed to \<open>startContext\<close>\<close>

text \<open>
  Claim C7, as the code has it.  \<open>startContext\<close> never fails, whether or not the id of the
  parent node is registered in \<open>contextNodeById\<close>: it returns a new node object, whose id
  is \<open>idCounter + 1\<close>, whose counter is 0, which has no ast node and whose attribute index
  is the counter the parent had (none without a parent); it registers the node in
  \<open>contextNodeById\<close>; and when a parent is given it increments the \<open>attributeCounter\<close> of
  the parent object, records the parent's id in \<open>parentIdById\<close> and appends the new id to
  the children recorded under the parent's id (an empty list if there are none).
  Nothing else is assigned.
\<close>

theorem startContext_never_fails:
  assumes "startContext h s nodeKind t tok maybeParentNode = ((h', s'), r)"
  shows "r = Inr (contextObjectCount h)
     \<and> idCounter s' = idCounter s + 1
     \<and> id_ctx (contextObjects h' (contextObjectCount h)) = idCounter s + 1
     \<and> contextNodeById (nodeIdMapCollection s') =
          (contextNodeById (nodeIdMapCollection s))(idCounter s + 1 \<mapsto> contextObjectCount h)
     \<and> childIdsById (nodeIdMapCollection s') =
          (case maybeParentNode of
             None \<Rightarrow> childIdsById (nodeIdMapCollection s)
           | Some parentNode \<Rightarrow>
               (childIdsById (nodeIdMapCollection s))
                 (id_ctx (contextObjects h parentNode) \<mapsto>
                    (case childIdsById (nodeIdMapCollection s)
                            (id_ctx (contextObjects h parentNode)) of
                       None \<Rightarrow> []
                     | Some existingChildren \<Rightarrow> existingChildren) @ [idCounter s + 1]))
     \<and> parentIdById (nodeIdMapCollection s') =
          (case maybeParentNode of
             None \<Rightarrow> parentIdById (nodeIdMapCollection s)
           | Some parentNode \<Rightarrow>
               (parentIdById (nodeIdMapCollection s))
                 (idCounter s + 1 \<mapsto> id_ctx (contextObjects h parentNode)))
     \<and> contextObjects h' =
          (case maybeParentNode of
             None \<Rightarrow> contextObjects h
           | Some parentNode \<Rightarrow>
               (contextObjects h)
                 (parentNode := (contextObjects h parentNode)
                    \<lparr>attributeCounter := attributeCounter (contextObjects h parentNode) + 1\<rparr>))
          (contextObjectCount h :=
             \<lparr> id_ctx = idCounter s + 1, kind_ctx = nodeKind, tokenIndexStart = t,
               maybeTokenStart = tok, attributeCounter = 0, maybeAstNode = None,
               maybeAttributeIndex_ctx =
                 (case maybeParentNode of
                    None \<Rightarrow> None
                  | Some parentNode \<Rightarrow> Some (attributeCounter (contextObjects h parentNode))) \<rparr>)
     \<and> contextObjectCount h' = contextObjectCount h + 1
     \<and> astObjects h' = astObjects h
     \<and> astObjectCount h' = astObjectCount h
     \<and> astNodeById (nodeIdMapCollection s') = astNodeById (nodeIdMapCollection s)
     \<and> root s' = root s
     \<and> leafNodeIds s' = leafNodeIds s"
  using assms
  by (auto simp: startContext_def Let_def split: option.splits)

text \<open>
  Witness for C7: the root (id 1, object 0) is closed, so its id is no longer in
  \<open>contextNodeById\<close>; a child opened with the root object as parent gets id 2 and
  attribute index 0, and the counter of the root object goes from 0 to 1.
\<close>

theorem startContext_never_fails_witness:
  "contextNodeById (nodeIdMapCollection (snd closedRoot)) 1 = None
   \<and> attributeCounter (contextObjects (fst closedRoot) 0) = 0
   \<and> snd (startContext (fst closedRoot) (snd closedRoot) ''Csv'' 1 None (Some 0)) = Inr 1
   \<and> idCounter (snd (fst
         (startContext (fst closedRoot) (snd closedRoot) ''Csv'' 1 None (Some 0)))) = 2
   \<and> contextNodeById (nodeIdMapCollection (snd (fst
         (startContext (fst closedRoot) (snd closedRoot) ''Csv'' 1 None (Some 0))))) 2 = Some 1
   \<and> childIdsById (nodeIdMapCollection (snd (fst
         (startContext (fst closedRoot) (snd closedRoot) ''Csv'' 1 None (Some 0))))) 1 = Some [2]
   \<and> parentIdById (nodeIdMapCollection (snd (fst
         (startContext (fst closedRoot) (snd closedRoot) ''Csv'' 1 None (Some 0))))) 2 = Some 1
   \<and> attributeCounter (contextObjects (fst (fst
         (startContext (fst closedRoot) (snd closedRoot) ''Csv'' 1 None (Some 0)))) 0) = 1
   \<and> maybeAttributeIndex_ctx (contextObjects (fst (fst
         (startContext (fst closedRoot) (snd closedRoot) ''Csv'' 1 None (Some 0)))) 1) = Some 0
   \<and> id_ctx (contextObjects (fst (fst
         (startContext (fst closedRoot) (snd closedRoot) ''Csv'' 1 None (Some 0)))) 1) = 2"
  using startContext_never_fails
    [of "fst closedRoot" "snd closedRoot" "''Csv''" 1 None "Some 0"
        "fst (fst (startContext (fst closedRoot) (snd closedRoot) ''Csv'' 1 None (Some 0)))"
        "snd (fst (startContext (fst closedRoot) (snd closedRoot) ''Csv'' 1 None (Some 0)))"
        "snd (startContext (fst closedRoot) (snd closedRoot) ''Csv'' 1 None (Some 0))"]
  by (simp add: closedRoot_def lifecycle_defs driver_defs)

text \<open>
  Counterexample to C7 as stated: the parent object has id 1, id 1 is absent from
  \<open>contextNodeById\<close>, and \<open>startContext\<close> returns a node.
\<close>

theorem startContext_absent_parent_counterexample:
  "id_ctx (contextObjects (fst closedRoot) 0) = 1
   \<and> contextNodeById (nodeIdMapCollection (snd closedRoot)) 1 = None
   \<and> snd (startContext (fst closedRoot) (snd closedRoot) ''Csv'' 1 None (Some 0)) = Inr 1"
  by (simp add: closedRoot_def lifecycle_defs driver_defs)

section \<open>Deep copies\<close>




section \<open>Rendering of function types\<close>

text \<open>
  Claim C9.  The defined function with the four parameters \<open>param1\<close> (number), \<open>param2\<close>
  (nullable number), \<open>param3\<close> (optional number) and \<open>param4\<close> (optional nullable number)
  and the return type \<open>any\<close> renders as
  \<open>(param1: number, param2: nullable number, param3: optional number, param4: optional nullable number) => any\<close>.
  In general a parameter renders its name, a colon, the optional marker, then the
  nullable marker, then the type; a defined function renders as \<open>(params) => returnType\<close>
  and a function type as \<open>type function (params) returnType\<close>, with no arrow.
\<close>

theorem nameOf_function_rendering:
  "nameOf (DefinedFunction False allParameterFlavors (Primitive False AnyKind)) =
     ''(param1: number, param2: nullable number, param3: optional number, param4: optional nullable number) => any''
   \<and> nameOf (FunctionType False allParameterFlavors (Primitive False AnyKind)) =
     ''type function (param1: number, param2: nullable number, param3: optional number, param4: optional nullable number) any''
   \<and> nameOfFunctionParameter parameter =
       nameLiteral parameter @ '': ''
         @ (if isOptional parameter then ''optional '' else [])
         @ (if isNullable parameter then ''nullable '' else [])
         @ nameOfTypeKind (maybeType parameter)
   \<and> nameOf (DefinedFunction False parameters returnType) =
       ''('' @ joinWith '', '' (map nameOfFunctionParameter parameters) @ '') => ''
         @ nameOf returnType
   \<and> nameOf (FunctionType False parameters returnType) =
       ''type function ('' @ joinWith '', '' (map nameOfFunctionParameter parameters) @ '') ''
         @ nameOf returnType"
  by (simp add: allParameterFlavors_def nameOfFunctionParameters_def
        nameOfFunctionParameter_def nullablePrefix_def)

section \<open>Ending a context that is not registered\<close>

text \<open>
  Claim C10, as the code has it.  Let the context node have no ast node yet and the id of
  the ast node, and let that id be absent from \<open>contextNodeById\<close>.  Then \<open>endContext\<close>
  raises the error \<open>can't end a context that doesn't belong to state\<close> after it has
  appended the id to \<open>leafNodeIds\<close> (when the ast node is a leaf) and assigned
  \<open>maybeAstNode\<close>; the four maps, \<open>astNodeById\<close> among them, are as before.
\<close>

theorem endContext_unregistered:
  assumes "endContext h s contextNode astNode = ((h', s'), r)"
    and "maybeAstNode (contextObjects h contextNode) = None"
    and "id_ctx (contextObjects h contextNode) = id_ast (astObjects h astNode)"
    and "contextNodeById (nodeIdMapCollection s) (id_ctx (contextObjects h contextNode)) = None"
  shows "r = Inl (InvariantError ''can't end a context that doesn't belong to state'')
     \<and> leafNodeIds s' =
          (if isLeaf (astObjects h astNode)
           then leafNodeIds s @ [id_ctx (contextObjects h contextNode)]
           else leafNodeIds s)
     \<and> maybeAstNode (contextObjects h' contextNode) = Some astNode
     \<and> nodeIdMapCollection s' = nodeIdMapCollection s
     \<and> h' \<noteq> h"
proof -
  have assigned: "maybeAstNode (contextObjects h' contextNode) = Some astNode"
    using assms by (auto simp: endContext_def Let_def split: if_splits)
  with assms(2) have "h' \<noteq> h" by auto
  with assigned assms show ?thesis
    by (auto simp: endContext_def Let_def split: if_splits)
qed

text \<open>
  Witness for C10: the root (id 1, object 0) was deleted, and the driver ends its node
  object with a leaf ast node of id 1.
\<close>

theorem endContext_unregistered_witness:
  "maybeAstNode (contextObjects (fst deletedRoot) 0) = None
   \<and> id_ctx (contextObjects (fst deletedRoot) 0) = 1
   \<and> id_ast (astObjects (fst deletedRoot) 0) = 1
   \<and> isLeaf (astObjects (fst deletedRoot) 0)
   \<and> contextNodeById (nodeIdMapCollection (snd deletedRoot)) 1 = None
   \<and> leafNodeIds (snd deletedRoot) = []
   \<and> snd (endContext (fst deletedRoot) (snd deletedRoot) 0 0)
       = Inl (InvariantError ''can't end a context that doesn't belong to state'')
   \<and> leafNodeIds (snd (fst (endContext (fst deletedRoot) (snd deletedRoot) 0 0))) = [1]
   \<and> maybeAstNode (contextObjects (fst (fst
         (endContext (fst deletedRoot) (snd deletedRoot) 0 0))) 0) = Some 0"
  using endContext_unregistered
    [of "fst deletedRoot" "snd deletedRoot" 0 0
        "fst (fst (endContext (fst deletedRoot) (snd deletedRoot) 0 0))"
        "snd (fst (endContext (fst deletedRoot) (snd deletedRoot) 0 0))"
        "snd (endContext (fst deletedRoot) (snd deletedRoot) 0 0)"]
  by (simp add: deletedRoot_def lifecycle_defs driver_defs)

text \<open>
  Counterexample to C10 as stated: the error is raised, and the ast node, whose id is
  1, has not been recorded in \<open>astNodeById\<close>.
\<close>

theorem endContext_ast_not_recorded_counterexample:
  "snd (endContext (fst deletedRoot) (snd deletedRoot) 0 0)
       = Inl (InvariantError ''can't end a context that doesn't belong to state'')
   \<and> id_ast (astObjects (fst deletedRoot) 0) = 1
   \<and> astNodeById (nodeIdMapCollection (snd (fst
         (endContext (fst deletedRoot) (snd deletedRoot) 0 0)))) 1 = None"
  by (simp add: deletedRoot_def lifecycle_defs driver_defs)

end
